theory Spec2Isabelle
  imports Complex_Main
begin

section \<open>The native particle model, as main.py sees it\<close>

text \<open>
  main.py drives the extension class \<open>MultithreadedParticleSystem\<close>: it constructs it, calls
  \<open>update\<close>, reads and writes \<open>particles\<close> and reads \<open>get_extents\<close>. Python floats are
  modelled as reals throughout.
\<close>

record particle =
  x :: real
  y :: real
  vx :: real
  vy :: real
  m :: real

type_synonym rect = "real \<times> real \<times> real \<times> real"

datatype error =
  InvalidConfiguration | IndexOutOfRange | TypeError | AttributeError
  | OverflowError | ZeroDivisionError

subsection \<open>Quadtree\<close>

text \<open>
  Modelled from the spec: the native tree of section 3. A point mass is the content of a leaf
  or the aggregate of an internal node; a node is a leaf with at most one particle or an
  internal node with its aggregate and four children.
\<close>

record body =
  mass :: real
  cx :: real
  cy :: real

datatype quadrant = SW | SE | NW | NE

datatype qtree =
  Leaf rect "body option"
  | Node rect body qtree qtree qtree qtree

text \<open>Modelled from the spec: the aggregate of an empty leaf is zero.\<close>

definition no_body :: body where
  "no_body = \<lparr>mass = 0, cx = 0, cy = 0\<rparr>"

text \<open>
  Modelled from the spec: the Quadtree Builder of section 4.2 is native code. The quadrant of a
  point is chosen by comparison with the centre of the region, so a point outside the region
  falls into the quadrant on its side.
\<close>

definition quadrant_of :: "rect \<Rightarrow> body \<Rightarrow> quadrant" where
  "quadrant_of r b =
     (case r of (x0, y0, x1, y1) \<Rightarrow>
        (if cx b < (x0 + x1) / 2
         then (if cy b < (y0 + y1) / 2 then SW else NW)
         else (if cy b < (y0 + y1) / 2 then SE else NE)))"

text \<open>Modelled from the spec: the four equal quadrants of a square region.\<close>

definition sub_rect :: "rect \<Rightarrow> quadrant \<Rightarrow> rect" where
  "sub_rect r q =
     (case r of (x0, y0, x1, y1) \<Rightarrow>
        (case q of
           SW \<Rightarrow> (x0, y0, (x0 + x1) / 2, (y0 + y1) / 2)
         | SE \<Rightarrow> ((x0 + x1) / 2, y0, x1, (y0 + y1) / 2)
         | NW \<Rightarrow> (x0, (y0 + y1) / 2, (x0 + x1) / 2, y1)
         | NE \<Rightarrow> ((x0 + x1) / 2, (y0 + y1) / 2, x1, y1)))"

text \<open>
  Modelled from the spec: a leaf over quadrant \<open>q\<close> of \<open>r\<close>, holding \<open>b\<close> when \<open>b\<close> lies in that
  quadrant and nothing otherwise (the state of a fresh subdivision after the resident particle
  has been put back).
\<close>

definition fresh_leaf :: "rect \<Rightarrow> body \<Rightarrow> quadrant \<Rightarrow> qtree" where
  "fresh_leaf r b q = Leaf (sub_rect r q) (if quadrant_of r b = q then Some b else None)"

text \<open>
  Modelled from the spec: insertion of one particle, section 4.2. The first argument is the
  subdivision depth still allowed; at depth 0 a second particle is treated as coincident with
  the resident one and its mass is merged into the leaf.
\<close>

fun insert_body :: "nat \<Rightarrow> body \<Rightarrow> qtree \<Rightarrow> qtree" where
  "insert_body d b (Leaf r None) = Leaf r (Some b)"
| "insert_body 0 b (Leaf r (Some a)) = Leaf r (Some (a\<lparr>mass := mass a + mass b\<rparr>))"
| "insert_body (Suc d) b (Leaf r (Some a)) =
     (case quadrant_of r b of
        SW \<Rightarrow> Node r no_body (insert_body d b (fresh_leaf r a SW)) (fresh_leaf r a SE)
                (fresh_leaf r a NW) (fresh_leaf r a NE)
      | SE \<Rightarrow> Node r no_body (fresh_leaf r a SW) (insert_body d b (fresh_leaf r a SE))
                (fresh_leaf r a NW) (fresh_leaf r a NE)
      | NW \<Rightarrow> Node r no_body (fresh_leaf r a SW) (fresh_leaf r a SE)
                (insert_body d b (fresh_leaf r a NW)) (fresh_leaf r a NE)
      | NE \<Rightarrow> Node r no_body (fresh_leaf r a SW) (fresh_leaf r a SE)
                (fresh_leaf r a NW) (insert_body d b (fresh_leaf r a NE)))"
| "insert_body d b (Node r g t1 t2 t3 t4) =
     (case quadrant_of r b of
        SW \<Rightarrow> Node r g (insert_body (d - 1) b t1) t2 t3 t4
      | SE \<Rightarrow> Node r g t1 (insert_body (d - 1) b t2) t3 t4
      | NW \<Rightarrow> Node r g t1 t2 (insert_body (d - 1) b t3) t4
      | NE \<Rightarrow> Node r g t1 t2 t3 (insert_body (d - 1) b t4))"

text \<open>
  Modelled from the spec: the aggregate a node carries, for a leaf its own particle, or zero
  when it is empty.
\<close>

fun aggregate_of :: "qtree \<Rightarrow> body" where
  "aggregate_of (Leaf r None) = no_body"
| "aggregate_of (Leaf r (Some b)) = b"
| "aggregate_of (Node r g t1 t2 t3 t4) = g"

text \<open>
  Modelled from the spec: the aggregate of an internal node from those of its four children,
  the sum of the masses and the mass-weighted average of the centres of mass.
\<close>

definition combine :: "body \<Rightarrow> body \<Rightarrow> body \<Rightarrow> body \<Rightarrow> body" where
  "combine a b c e =
     (let t = mass a + mass b + mass c + mass e
      in if t = 0 then no_body
         else \<lparr>mass = t,
               cx = (mass a * cx a + mass b * cx b + mass c * cx c + mass e * cx e) / t,
               cy = (mass a * cy a + mass b * cy b + mass c * cy c + mass e * cy e) / t\<rparr>)"

text \<open>Modelled from the spec: the bottom-up aggregation pass over the finished shape.\<close>

fun aggregate :: "qtree \<Rightarrow> qtree" where
  "aggregate (Leaf r c) = Leaf r c"
| "aggregate (Node r g t1 t2 t3 t4) =
     (let u1 = aggregate t1; u2 = aggregate t2; u3 = aggregate t3; u4 = aggregate t4
      in Node r (combine (aggregate_of u1) (aggregate_of u2) (aggregate_of u3) (aggregate_of u4))
           u1 u2 u3 u4)"

text \<open>
  Modelled from the spec: the regions of all nodes of a tree (what \<open>extents()\<close> lists),
  parents before children.
\<close>

fun regions :: "qtree \<Rightarrow> rect list" where
  "regions (Leaf r c) = [r]"
| "regions (Node r g t1 t2 t3 t4) = r # regions t1 @ regions t2 @ regions t3 @ regions t4"

text \<open>Modelled from the spec: a particle as the point mass the tree stores.\<close>

definition body_of :: "particle \<Rightarrow> body" where
  "body_of p = \<lparr>mass = m p, cx = x p, cy = y p\<rparr>"

text \<open>
  Modelled from the spec: the tree of one step, built by inserting the particles in index order
  into a single empty leaf over the root bounds and aggregating afterwards.
\<close>

definition build_tree :: "nat \<Rightarrow> real \<Rightarrow> particle list \<Rightarrow> qtree" where
  "build_tree cap b ps =
     aggregate (fold (\<lambda>p t. insert_body cap (body_of p) t) ps (Leaf (- b, - b, b, b) None))"

subsection \<open>The simulator facade\<close>

text \<open>
  What the native code fixes and neither main.py nor the spec gives: the seeded random source
  (position and mass of the particle with a given index), the cap on the subdivision depth, and
  the force evaluator (acceleration of a particle from the tree of the step and theta).
\<close>

record engine =
  sample :: "int \<Rightarrow> nat \<Rightarrow> real \<times> real \<times> real"
  max_depth :: nat
  accel :: "real \<Rightarrow> qtree \<Rightarrow> particle \<Rightarrow> real \<times> real"

text \<open>
  Modelled from the spec: the state of the facade of section 4.6, the particle store, the
  configuration fixed at construction and the most recently built tree.
\<close>

record psys =
  particles :: "particle list"
  cfg_bounds :: real
  cfg_seed :: int
  cfg_theta :: real
  cfg_dt :: real
  cfg_thread_count :: int
  last_tree :: "qtree option"
  native :: engine

text \<open>
  Modelled from the spec: \<open>construct(num_particles, bounds, seed, theta, dt, thread_count)\<close> of
  section 4.6, the constructor of the native class. Positions and masses come from the seeded
  source, velocities are zero, and no tree exists yet.
\<close>

definition spawn :: "engine \<Rightarrow> int \<Rightarrow> nat \<Rightarrow> particle" where
  "spawn e s i =
     (case sample e s i of (px, py, pm) \<Rightarrow> \<lparr>x = px, y = py, vx = 0, vy = 0, m = pm\<rparr>)"

text \<open>
  Modelled from the spec: the constructor fails with \<open>InvalidConfiguration\<close> if
  \<open>num_particles \<le> 0\<close>, \<open>thread_count \<le> 0\<close>, \<open>bounds \<le> 0\<close> or \<open>theta < 0\<close>.
\<close>

definition MultithreadedParticleSystem ::
  "engine \<Rightarrow> int \<Rightarrow> real \<Rightarrow> int \<Rightarrow> real \<Rightarrow> real \<Rightarrow> int \<Rightarrow> error + psys" where
  "MultithreadedParticleSystem e num_particles bounds seed theta dt thread_count =
     (if num_particles \<le> 0 \<or> thread_count \<le> 0 \<or> bounds \<le> 0 \<or> theta < 0
      then Inl InvalidConfiguration
      else Inr \<lparr>particles = map (spawn e seed) [0..<nat num_particles],
                cfg_bounds = bounds, cfg_seed = seed, cfg_theta = theta, cfg_dt = dt,
                cfg_thread_count = thread_count, last_tree = None, native = e\<rparr>)"

text \<open>
  Modelled from the spec: the Integrator of section 4.4, a semi-implicit Euler step. The
  velocity is advanced first and the position uses the new velocity.
\<close>

definition integrate :: "real \<Rightarrow> real \<times> real \<Rightarrow> particle \<Rightarrow> particle" where
  "integrate h a p =
     (let v1 = vx p + fst a * h; v2 = vy p + snd a * h
      in p\<lparr>vx := v1, vy := v2, x := x p + v1 * h, y := y p + v2 * h\<rparr>)"

text \<open>
  Modelled from the spec: \<open>step()\<close> of sections 2 and 4.6, the method \<open>update\<close> of the native
  class: build the tree over the current positions, evaluate every particle against that tree,
  integrate. The tree of the step stays available to the extent accessor.
\<close>

definition update :: "psys \<Rightarrow> psys" where
  "update s =
     (let t = build_tree (max_depth (native s)) (cfg_bounds s) (particles s)
      in s\<lparr>particles :=
              map (\<lambda>p. integrate (cfg_dt s) (accel (native s) (cfg_theta s) t p) p) (particles s),
            last_tree := Some t\<rparr>)"

text \<open>
  Modelled from the spec: \<open>extents()\<close> of section 4.6, the method \<open>get_extents\<close> of the native
  class: the regions of the most recently built tree, none before the first step.
\<close>

definition get_extents :: "psys \<Rightarrow> rect list" where
  "get_extents s = (case last_tree s of None \<Rightarrow> [] | Some t \<Rightarrow> regions t)"

section \<open>The dashboard of main.py\<close>

subsection \<open>Widgets and globals\<close>

text \<open>
  The values of the input widgets (lines 161 to 173). The slider of the particles per thread
  starts at 1 with step 1 and so holds whole numbers; the discrete slider of the thread count
  holds one of its options, or nothing when it has none.
\<close>

record widgets =
  seed_input :: int
  num_particles_slider :: int
  bounds_slider :: real
  time_delta_slider :: real
  theta_slider :: real
  thread_count_slider :: "int option"
  fps_slider :: int
  quadtree_display :: bool
  auto_scale_axes :: bool

text \<open>A periodic callback handed out by \<open>pn.state.add_periodic_callback\<close>.\<close>

record periodic =
  running :: bool
  period :: int

type_synonym frame = "(real \<times> real \<times> real) list \<times> rect list"

record dash =
  model :: "psys option"
  particle_pipe :: "frame list"
  table_value :: "(real \<times> real \<times> real) list option"
  table_disabled :: bool
  periodic_callback :: "periodic option"
  framewise :: bool
  play_button_name :: string
  inputs :: widgets

text \<open>
  A callback either returns or raises; in both cases the assignments it has made to the
  globals and widgets stay. The first component is the exception raised, if any.
\<close>

type_synonym outcome = "error option \<times> dash"

text \<open>\<open>int(np.log2(n))\<close> for a positive count.\<close>

fun ilog2 :: "nat \<Rightarrow> nat" where
  "ilog2 n = (if n < 2 then 0 else Suc (ilog2 (n div 2)))"

declare ilog2.simps [simp del]

text \<open>
  Line 168, the options of the thread count slider, from \<open>os.cpu_count()\<close> (which may be
  \<open>None\<close>).
\<close>

definition thread_count :: "nat option \<Rightarrow> error + int list" where
  "thread_count cpu =
     (case cpu of
        None \<Rightarrow> Inl TypeError
      | Some n \<Rightarrow> if n = 0 then Inl OverflowError
                  else Inr (map (\<lambda>i. 2 ^ i) [0..<ilog2 n]))"

text \<open>
  The state after the module has been executed (lines 134 to 173), before the page is loaded.
  A discrete slider starts at its first option and has no value when it has no options.
\<close>

definition startup :: "nat option \<Rightarrow> error + dash" where
  "startup cpu =
     (case thread_count cpu of
        Inl e \<Rightarrow> Inl e
      | Inr opts \<Rightarrow>
          Inr \<lparr>model = None, particle_pipe = [], table_value = None, table_disabled = False,
               periodic_callback = None, framewise = True, play_button_name = ''Play'',
               inputs = \<lparr>seed_input = 1337, num_particles_slider = 100, bounds_slider = 100,
                          time_delta_slider = 1 / 10, theta_slider = 1 / 2,
                          thread_count_slider = (case opts of [] \<Rightarrow> None | t # _ \<Rightarrow> Some t),
                          fps_slider = 30, quadtree_display = False,
                          auto_scale_axes = False\<rparr>\<rparr>)"

text \<open>
  The values the browser can give the input widgets: each slider stays between its start and
  its end, the thread count is one of the options.
\<close>

definition in_range :: "nat option \<Rightarrow> widgets \<Rightarrow> bool" where
  "in_range cpu w =
     (1 \<le> num_particles_slider w \<and> num_particles_slider w \<le> 1000
      \<and> 25 \<le> bounds_slider w \<and> bounds_slider w \<le> 2500
      \<and> 1 / 10 \<le> time_delta_slider w \<and> time_delta_slider w \<le> 1
      \<and> 0 \<le> theta_slider w \<and> theta_slider w \<le> 2
      \<and> 1 \<le> fps_slider w \<and> fps_slider w \<le> 60
      \<and> (case thread_count cpu of
            Inl e \<Rightarrow> False
          | Inr opts \<Rightarrow>
              (case thread_count_slider w of
                 None \<Rightarrow> opts = []
               | Some t \<Rightarrow> t \<in> set opts)))"

subsection \<open>Callbacks\<close>

text \<open>
  The data frames every callback builds from the model: one row \<open>(x, y, m)\<close> per particle in
  index order, and the rectangles of the extent accessor.
\<close>

definition particle_data :: "psys \<Rightarrow> (real \<times> real \<times> real) list" where
  "particle_data mdl = map (\<lambda>p. (x p, y p, m p)) (particles mdl)"

definition extent_data :: "psys \<Rightarrow> rect list" where
  "extent_data mdl = get_extents mdl"

text \<open>\<open>particle_pipe.send\<close>: the frames sent so far, oldest first.\<close>

definition send :: "frame \<Rightarrow> dash \<Rightarrow> dash" where
  "send d st = st\<lparr>particle_pipe := particle_pipe st @ [d]\<rparr>"

text \<open>Lines 18 to 28. With no model yet, \<open>model.update()\<close> raises.\<close>

definition update_model :: "dash \<Rightarrow> outcome" where
  "update_model st =
     (case model st of
        None \<Rightarrow> (Some AttributeError, st)
      | Some mdl0 \<Rightarrow>
          (let mdl = update mdl0;
               s1 = st\<lparr>model := Some mdl\<rparr>;
               s2 = send (particle_data mdl, extent_data mdl) s1
           in (None, s2\<lparr>table_value := Some (particle_data mdl)\<rparr>)))"

text \<open>Lines 30 to 58. The overlay keeps the options the claims are about.\<close>

record overlay =
  points :: "(real \<times> real \<times> real) list"
  rectangles :: "rect list"
  alpha :: "real option"
  framewise_opt :: "bool option"

definition visualize_model :: "dash \<Rightarrow> frame option \<Rightarrow> overlay" where
  "visualize_model st data =
     (case data of
        None \<Rightarrow> \<lparr>points = [], rectangles = [], alpha = None, framewise_opt = None\<rparr>
      | Some (pd, ed) \<Rightarrow>
          \<lparr>points = pd, rectangles = ed,
           alpha = Some (1 / 4 * (if quadtree_display (inputs st) then 1 else 0)),
           framewise_opt = Some (framewise st)\<rparr>)"

text \<open>Lines 60 to 82.\<close>

definition play :: "dash \<Rightarrow> outcome" where
  "play st =
     (if periodic_callback st = None \<or> \<not> running (the (periodic_callback st))
      then
        (let s1 = st\<lparr>play_button_name := ''Stop''\<rparr>
         in if fps_slider (inputs s1) = 0 then (Some ZeroDivisionError, s1)
            else (None, s1\<lparr>periodic_callback :=
                              Some \<lparr>running = True, period = 1000 div fps_slider (inputs s1)\<rparr>,
                            table_disabled := True\<rparr>))
      else
        (let s1 = st\<lparr>play_button_name := ''Play''\<rparr>;
             s2 = s1\<lparr>periodic_callback :=
                       Some ((the (periodic_callback s1))\<lparr>running := False\<rparr>)\<rparr>;
             s3 = s2\<lparr>table_disabled := False\<rparr>
         in case model s3 of
              None \<Rightarrow> (Some AttributeError, s3)
            | Some mdl \<Rightarrow> (None, send (particle_data mdl, extent_data mdl) s3)))"

text \<open>\<open>np.hypot\<close>.\<close>

definition hypot :: "real \<Rightarrow> real \<Rightarrow> real" where
  "hypot a b = sqrt (a\<^sup>2 + b\<^sup>2)"

text \<open>Lines 102 to 105, the body of the loop over the particles of the new model.\<close>

definition orbital :: "particle \<Rightarrow> particle" where
  "orbital p =
     (let r = hypot (x p) (y p)
      in if r > 1 / 10 ^ 8 then p\<lparr>vx := - y p / r, vy := x p / r\<rparr> else p)"

text \<open>
  Lines 84 to 117. The product on line 99 raises when the thread count slider has no value;
  the constructor may raise; in both cases the callback has already dropped the periodic
  callback and has not yet touched the model, the pipe or the table.
\<close>

definition reset :: "engine \<Rightarrow> dash \<Rightarrow> outcome" where
  "reset e st =
     (let s1 = (if periodic_callback st \<noteq> None \<and> running (the (periodic_callback st))
                then st\<lparr>play_button_name := ''Play''\<rparr> else st);
          s2 = s1\<lparr>periodic_callback := None\<rparr>;
          w = inputs s2
      in case thread_count_slider w of
           None \<Rightarrow> (Some TypeError, s2)
         | Some tc \<Rightarrow>
             (let num_particles = num_particles_slider w * tc
              in case MultithreadedParticleSystem e num_particles (bounds_slider w)
                        (seed_input w) (theta_slider w) (time_delta_slider w) tc of
                   Inl err \<Rightarrow> (Some err, s2)
                 | Inr mdl0 \<Rightarrow>
                     (let mdl = mdl0\<lparr>particles := map orbital (particles mdl0)\<rparr>;
                          s3 = s2\<lparr>model := Some mdl\<rparr>;
                          extents = [(- bounds_slider w, - bounds_slider w,
                                      bounds_slider w, bounds_slider w)];
                          s4 = send (particle_data mdl, extents) (s3\<lparr>framewise := True\<rparr>);
                          s5 = s4\<lparr>framewise := False\<rparr>;
                          s6 = s5\<lparr>table_value := Some (particle_data mdl)\<rparr>
                      in (None, s6\<lparr>table_disabled := False\<rparr>))))"

text \<open>The edit event of the table: column name, row index and the new cell content.\<close>

record edit_event =
  column :: string
  row :: nat
  edited :: real

text \<open>
  \<open>model.particles[i].attr = v\<close>: the particle at index \<open>i\<close> is changed in place; an index past
  the end raises.
\<close>

definition assign_at :: "nat \<Rightarrow> (particle \<Rightarrow> particle) \<Rightarrow> psys \<Rightarrow> error + psys" where
  "assign_at i f mdl =
     (if i < length (particles mdl)
      then Inr (mdl\<lparr>particles := (particles mdl)[i := f (particles mdl ! i)]\<rparr>)
      else Inl IndexOutOfRange)"

text \<open>Lines 123 to 132.\<close>

definition edit_model :: "edit_event \<Rightarrow> dash \<Rightarrow> outcome" where
  "edit_model event st =
     (case model st of
        None \<Rightarrow> (Some AttributeError, st)
      | Some mdl0 \<Rightarrow>
          (case (if column event = ''x'' then assign_at (row event) (\<lambda>p. p\<lparr>x := edited event\<rparr>) mdl0
                 else if column event = ''y''
                   then assign_at (row event) (\<lambda>p. p\<lparr>y := edited event\<rparr>) mdl0
                 else if column event = ''m''
                   then assign_at (row event) (\<lambda>p. p\<lparr>m := edited event\<rparr>) mdl0
                 else Inr mdl0) of
             Inl err \<Rightarrow> (Some err, st)
           | Inr mdl \<Rightarrow>
               (None, send (particle_data mdl, extent_data mdl) (st\<lparr>model := Some mdl\<rparr>))))"

subsection \<open>The dashboard as a transition system\<close>

text \<open>
  What can happen to the served dashboard: a click on either button, an edit in the table, a
  firing of the periodic callback, a change of the input widgets.
\<close>

datatype event = Play | Reset | Edit edit_event | Tick | Configure widgets

text \<open>
  The table delivers an edit only while it is not disabled, a periodic callback fires only
  while it is running, and the input widgets take only values of their ranges.
\<close>

fun enabled :: "nat option \<Rightarrow> dash \<Rightarrow> event \<Rightarrow> bool" where
  "enabled cpu st Play = True"
| "enabled cpu st Reset = True"
| "enabled cpu st (Edit ev) = (\<not> table_disabled st)"
| "enabled cpu st Tick =
     (case periodic_callback st of None \<Rightarrow> False | Some pc \<Rightarrow> running pc)"
| "enabled cpu st (Configure w) = in_range cpu w"

fun handle :: "engine \<Rightarrow> event \<Rightarrow> dash \<Rightarrow> outcome" where
  "handle e Play st = play st"
| "handle e Reset st = reset e st"
| "handle e (Edit ev) st = edit_model ev st"
| "handle e Tick st = update_model st"
| "handle e (Configure w) st = (None, st\<lparr>inputs := w\<rparr>)"

text \<open>The effect of a run of events; an event that is not enabled does not happen.\<close>

fun run :: "engine \<Rightarrow> nat option \<Rightarrow> event list \<Rightarrow> dash \<Rightarrow> dash" where
  "run e cpu [] st = st"
| "run e cpu (ev # evs) st =
     run e cpu evs (if enabled cpu st ev then snd (handle e ev st) else st)"

text \<open>
  Line 176: on load the dashboard resets. The states of the loaded dashboard are those a run
  of events reaches from the state the reset on load returns.
\<close>

definition loaded :: "engine \<Rightarrow> nat option \<Rightarrow> dash option" where
  "loaded e cpu =
     (case startup cpu of
        Inl err \<Rightarrow> None
      | Inr s0 \<Rightarrow> (case reset e s0 of (None, s1) \<Rightarrow> Some s1 | (Some err, s1) \<Rightarrow> None))"

definition is_running :: "dash \<Rightarrow> bool" where
  "is_running st = (case periodic_callback st of None \<Rightarrow> False | Some pc \<Rightarrow> running pc)"

text \<open>
  The state of the loaded dashboard is coherent when the input widgets are within their
  ranges, a thread count is selected, and the table is disabled exactly while the periodic
  callback is running.
\<close>

definition coherent :: "nat option \<Rightarrow> dash \<Rightarrow> bool" where
  "coherent cpu st =
     (in_range cpu (inputs st) \<and> thread_count_slider (inputs st) \<noteq> None
      \<and> table_disabled st = is_running st)"

text \<open>A small engine for running the definitions on concrete inputs.\<close>

definition demo_engine :: engine where
  "demo_engine = \<lparr>sample = (\<lambda>s i. (real i, 0, 1)), max_depth = 8,
                   accel = (\<lambda>th t p. (0, 0))\<rparr>"

text \<open>A small dashboard state with a model of two particles.\<close>

definition demo_model :: psys where
  "demo_model =
     \<lparr>particles = [\<lparr>x = 1, y = 0, vx = 0, vy = 1, m = 1\<rparr>,
                   \<lparr>x = 0, y = 2, vx = - 1, vy = 0, m = 3\<rparr>],
      cfg_bounds = 100, cfg_seed = 1337, cfg_theta = 1 / 2, cfg_dt = 1 / 10,
      cfg_thread_count = 1, last_tree = None, native = demo_engine\<rparr>"

definition demo_inputs :: widgets where
  "demo_inputs =
     \<lparr>seed_input = 1337, num_particles_slider = 2, bounds_slider = 100,
      time_delta_slider = 1 / 10, theta_slider = 1 / 2, thread_count_slider = Some 2,
      fps_slider = 30, quadtree_display = False, auto_scale_axes = False\<rparr>"

definition demo_dash :: dash where
  "demo_dash =
     \<lparr>model = Some demo_model, particle_pipe = [], table_value = None,
      table_disabled = False, periodic_callback = None, framewise = False,
      play_button_name = ''Play'', inputs = demo_inputs\<rparr>"

text \<open>The mass held by the leaves of a tree, and the mass of a particle store.\<close>

fun leaf_mass :: "qtree \<Rightarrow> real" where
  "leaf_mass (Leaf r None) = 0"
| "leaf_mass (Leaf r (Some b)) = mass b"
| "leaf_mass (Node r g t1 t2 t3 t4) = leaf_mass t1 + leaf_mass t2 + leaf_mass t3 + leaf_mass t4"

definition total_mass :: "particle list \<Rightarrow> real" where
  "total_mass ps = sum_list (map m ps)"

text \<open>The configuration a model was constructed with.\<close>

definition configuration :: "psys \<Rightarrow> nat \<times> real \<times> int \<times> real \<times> real \<times> int" where
  "configuration mdl =
     (length (particles mdl), cfg_bounds mdl, cfg_seed mdl, cfg_theta mdl, cfg_dt mdl,
      cfg_thread_count mdl)"

section \<open>Properties\<close>

subsection \<open>Widget ranges and the constructor\<close>

lemma thread_count_pos:
  "thread_count cpu = Inr opts \<Longrightarrow> t \<in> set opts \<Longrightarrow> 1 \<le> t"
  by (auto simp: thread_count_def split: option.splits if_splits)

lemma in_range_thread:
  "in_range cpu w \<Longrightarrow> thread_count_slider w = Some t \<Longrightarrow> 1 \<le> t"
  by (auto simp: in_range_def thread_count_pos split: sum.splits)

lemma in_range_some:
  "in_range cpu w \<Longrightarrow> thread_count_slider w \<noteq> None \<Longrightarrow> in_range cpu w'
     \<Longrightarrow> thread_count_slider w' \<noteq> None"
  by (auto simp: in_range_def split: sum.splits option.splits)

lemma startup_in_range: "startup cpu = Inr s0 \<Longrightarrow> in_range cpu (inputs s0)"
  by (auto simp: startup_def in_range_def split: sum.splits list.splits)

lemma reset_no_threads:
  "thread_count_slider (inputs st) = None \<Longrightarrow> fst (reset e st) = Some TypeError"
  by (simp add: reset_def Let_def)

lemma reset_returns:
  assumes "in_range cpu (inputs st)" "thread_count_slider (inputs st) \<noteq> None"
  shows "fst (reset e st) = None"
proof -
  obtain tc where tc: "thread_count_slider (inputs st) = Some tc"
    using assms(2) by blast
  have "1 \<le> tc" using assms(1) tc by (rule in_range_thread)
  moreover have "1 \<le> num_particles_slider (inputs st)" "25 \<le> bounds_slider (inputs st)"
    "0 \<le> theta_slider (inputs st)"
    using assms(1) by (simp_all add: in_range_def)
  ultimately show ?thesis
    using tc by (simp add: reset_def Let_def MultithreadedParticleSystem_def send_def
        mult_le_0_iff)
qed

subsection \<open>No callback touches the input widgets\<close>

lemma inputs_play [simp]: "inputs (snd (play st)) = inputs st"
  by (simp add: play_def Let_def send_def split: option.splits)

lemma inputs_reset [simp]: "inputs (snd (reset e st)) = inputs st"
  by (simp add: reset_def Let_def send_def split: option.splits sum.splits)

lemma inputs_edit_model [simp]: "inputs (snd (edit_model ev st)) = inputs st"
  by (simp add: edit_model_def Let_def send_def split: option.splits sum.splits)

lemma inputs_update_model [simp]: "inputs (snd (update_model st)) = inputs st"
  by (simp add: update_model_def Let_def send_def split: option.splits)

subsection \<open>The table is disabled exactly while the periodic callback runs\<close>

lemma play_sync:
  "table_disabled st = is_running st
     \<Longrightarrow> table_disabled (snd (play st)) = is_running (snd (play st))"
  by (auto simp add: play_def Let_def send_def is_running_def split: option.splits)

lemma reset_sync:
  "fst (reset e st) = None
     \<Longrightarrow> \<not> table_disabled (snd (reset e st)) \<and> \<not> is_running (snd (reset e st))"
  by (auto simp add: reset_def Let_def send_def is_running_def split: option.splits sum.splits)

lemma edit_model_sync:
  "table_disabled (snd (edit_model ev st)) = table_disabled st
   \<and> is_running (snd (edit_model ev st)) = is_running st"
  by (simp add: edit_model_def Let_def send_def is_running_def split: option.splits sum.splits)

lemma update_model_sync:
  "table_disabled (snd (update_model st)) = table_disabled st
   \<and> is_running (snd (update_model st)) = is_running st"
  by (simp add: update_model_def Let_def send_def is_running_def split: option.splits)

lemma handle_coherent:
  assumes "coherent cpu st" "enabled cpu st ev"
  shows "coherent cpu (snd (handle e ev st))"
proof (cases ev)
  case Play
  then show ?thesis using assms by (simp add: coherent_def play_sync)
next
  case Reset
  have "fst (reset e st) = None"
    using assms(1) reset_returns [of cpu st e] by (simp add: coherent_def)
  then show ?thesis using assms Reset by (simp add: coherent_def reset_sync)
next
  case (Edit ed)
  then show ?thesis using assms by (simp add: coherent_def edit_model_sync)
next
  case Tick
  then show ?thesis using assms by (simp add: coherent_def update_model_sync)
next
  case (Configure w)
  then show ?thesis using assms in_range_some [of cpu "inputs st" w]
    by (simp add: coherent_def is_running_def)
qed

lemma run_coherent: "coherent cpu st \<Longrightarrow> coherent cpu (run e cpu evs st)"
  by (induction evs arbitrary: st) (simp_all add: handle_coherent)

lemma loaded_coherent:
  assumes "loaded e cpu = Some s1"
  shows "coherent cpu s1"
proof -
  obtain s0 where s0: "startup cpu = Inr s0" and r: "reset e s0 = (None, s1)"
    using assms by (auto simp: loaded_def split: sum.splits prod.splits option.splits)
  have a: "in_range cpu (inputs s0)" using s0 by (rule startup_in_range)
  have b: "thread_count_slider (inputs s0) \<noteq> None"
    using r reset_no_threads [of s0 e] by auto
  have c: "inputs s1 = inputs s0" using inputs_reset [of e s0] r by simp
  have "\<not> table_disabled s1 \<and> \<not> is_running s1"
    using reset_sync [of e s0] r by simp
  then show ?thesis using a b c by (simp add: coherent_def)
qed

subsection \<open>A concrete machine: four processors\<close>

lemma ilog2_4: "ilog2 4 = 2"
  by code_simp

lemma startup_4:
  "startup (Some 4) =
     Inr \<lparr>model = None, particle_pipe = [], table_value = None, table_disabled = False,
          periodic_callback = None, framewise = True, play_button_name = ''Play'',
          inputs = \<lparr>seed_input = 1337, num_particles_slider = 100, bounds_slider = 100,
                     time_delta_slider = 1 / 10, theta_slider = 1 / 2,
                     thread_count_slider = Some 1, fps_slider = 30, quadtree_display = False,
                     auto_scale_axes = False\<rparr>\<rparr>"
  by (simp add: startup_def thread_count_def ilog2_4 upt_rec)

lemma loaded_4: "loaded demo_engine (Some 4) = Some (the (loaded demo_engine (Some 4)))"
  by (simp add: loaded_def startup_4 reset_def Let_def MultithreadedParticleSystem_def send_def)

text \<open>
  With a single processor the slider has no options, the reset on load raises on line 99, and
  the dashboard never gets a model.
\<close>

lemma single_processor_not_loaded: "loaded e (Some 1) = None"
  by (simp add: loaded_def startup_def thread_count_def ilog2.simps reset_def Let_def)

subsection \<open>Claims\<close>

text \<open>
  From the reset on load onwards, on a host where that reset returns, the table is disabled
  exactly while the periodic callback runs, and every edit it delivers finds the callback
  stopped.
\<close>

lemma loaded_table_enabled_iff_not_running:
  assumes "loaded e cpu = Some s1" and "st = run e cpu evs s1"
  shows "(\<not> table_disabled st) = (\<not> is_running st)
         \<and> (\<forall>ev. enabled cpu st (Edit ev) \<longrightarrow> \<not> is_running st)"
proof -
  have "coherent cpu st"
    using assms by (simp add: loaded_coherent run_coherent)
  then show ?thesis by (simp add: coherent_def)
qed

lemma loaded_table_disabled_while_playing:
  "loaded demo_engine (Some 4) = Some (the (loaded demo_engine (Some 4)))
   \<and> table_disabled (run demo_engine (Some 4) [Play, Tick] (the (loaded demo_engine (Some 4))))
   \<and> is_running (run demo_engine (Some 4) [Play, Tick] (the (loaded demo_engine (Some 4))))
   \<and> \<not> enabled (Some 4)
          (run demo_engine (Some 4) [Play, Tick] (the (loaded demo_engine (Some 4))))
          (Edit \<lparr>column = ''m'', row = 0, edited = 2\<rparr>)"
  using loaded_table_enabled_iff_not_running [OF loaded_4 refl, of "[Play, Tick]"]
  by (simp add: loaded_def startup_4 reset_def Let_def MultithreadedParticleSystem_def send_def
      play_def update_model_def)

text \<open>
  From the start of the dashboard, on every host, a table that accepts edits has no periodic
  callback running.
\<close>

lemma reset_stops: "\<not> is_running (snd (reset e st))"
  by (simp add: reset_def Let_def send_def is_running_def split: option.splits sum.splits)

lemma play_guard:
  "(is_running st \<longrightarrow> table_disabled st)
     \<Longrightarrow> is_running (snd (play st)) \<longrightarrow> table_disabled (snd (play st))"
  by (auto simp add: play_def Let_def send_def is_running_def split: option.splits)

lemma handle_guard:
  "is_running (snd (handle e ev st)) \<longrightarrow> table_disabled (snd (handle e ev st))"
  if "is_running st \<longrightarrow> table_disabled st"
proof (cases ev)
  case (Configure w)
  then show ?thesis using that by (simp add: is_running_def)
qed (use that in \<open>simp_all add: play_guard reset_stops edit_model_sync update_model_sync\<close>)

lemma run_guard:
  "(is_running st \<longrightarrow> table_disabled st)
     \<Longrightarrow> is_running (run e cpu evs st) \<longrightarrow> table_disabled (run e cpu evs st)"
  by (induction evs arbitrary: st) (simp_all add: handle_guard)

lemma enabled_table_not_running:
  assumes "startup cpu = Inr s0" and "st = run e cpu evs s0"
  shows "\<not> table_disabled st \<longrightarrow> \<not> is_running st"
proof -
  have "is_running s0 \<longrightarrow> table_disabled s0"
    using assms(1) by (auto simp: startup_def is_running_def split: sum.splits)
  then show ?thesis using run_guard [of s0 e cpu evs] assms(2) by blast
qed

subsection \<open>A host with one processor\<close>

lemma ilog2_1: "ilog2 (Suc 0) = 0"
  by code_simp

lemma startup_1:
  "startup (Some 1) =
     Inr \<lparr>model = None, particle_pipe = [], table_value = None, table_disabled = False,
          periodic_callback = None, framewise = True, play_button_name = ''Play'',
          inputs = \<lparr>seed_input = 1337, num_particles_slider = 100, bounds_slider = 100,
                     time_delta_slider = 1 / 10, theta_slider = 1 / 2,
                     thread_count_slider = None, fps_slider = 30, quadtree_display = False,
                     auto_scale_axes = False\<rparr>\<rparr>"
  by (simp add: startup_def thread_count_def ilog2_1)

lemma startup_1_facts:
  "startup (Some 1) = Inr (projr (startup (Some 1)))"
  "thread_count_slider (inputs (projr (startup (Some 1)))) = None"
  "fps_slider (inputs (projr (startup (Some 1)))) = 30"
  "\<not> is_running (projr (startup (Some 1)))"
  "\<not> table_disabled (projr (startup (Some 1)))"
  "model (projr (startup (Some 1))) = None"
  unfolding startup_1 by (simp_all add: is_running_def)

lemma reset_no_threads_keeps:
  "thread_count_slider (inputs st) = None
     \<Longrightarrow> table_disabled (snd (reset e st)) = table_disabled st
         \<and> model (snd (reset e st)) = model st"
  by (simp add: reset_def Let_def)

lemma play_starts:
  "\<not> is_running st \<Longrightarrow> fps_slider (inputs st) \<noteq> 0
     \<Longrightarrow> fst (play st) = None \<and> is_running (snd (play st)) \<and> table_disabled (snd (play st))"
  by (auto simp add: play_def Let_def is_running_def split: option.splits)

text \<open>
  C1. The claim is that in every state of the served dashboard the table accepts edits
  (\<open>table.disabled\<close> is False) if and only if the periodic callback is not running. On a host
  with one processor main.py breaks it: line 168 gives the thread count slider no options, so
  the reset on load raises on line 99 and leaves no model; Play then starts the periodic
  callback and disables the table (lines 72 to 75); Reset stops and drops the callback (lines
  95 to 98) and raises on line 99 again, before line 117 would enable the table. The table
  stays disabled although nothing is running.
\<close>

theorem single_processor_reset_leaves_table_disabled:
  "startup (Some 1) = Inr (projr (startup (Some 1)))
   \<and> fst (handle demo_engine Reset (projr (startup (Some 1)))) = Some TypeError
   \<and> model (run demo_engine (Some 1) [Reset] (projr (startup (Some 1)))) = None
   \<and> is_running (run demo_engine (Some 1) [Reset, Play] (projr (startup (Some 1))))
   \<and> table_disabled (run demo_engine (Some 1) [Reset, Play] (projr (startup (Some 1))))
   \<and> fst (handle demo_engine Reset
             (run demo_engine (Some 1) [Reset, Play] (projr (startup (Some 1)))))
       = Some TypeError
   \<and> table_disabled (run demo_engine (Some 1) [Reset, Play, Reset] (projr (startup (Some 1))))
   \<and> \<not> is_running (run demo_engine (Some 1) [Reset, Play, Reset] (projr (startup (Some 1))))
   \<and> \<not> ((\<not> table_disabled
              (run demo_engine (Some 1) [Reset, Play, Reset] (projr (startup (Some 1)))))
          = (\<not> is_running
              (run demo_engine (Some 1) [Reset, Play, Reset] (projr (startup (Some 1))))))"
proof -
  let ?s0 = "projr (startup (Some 1))"
  let ?s1 = "snd (reset demo_engine ?s0)"
  let ?s2 = "snd (play ?s1)"
  let ?s3 = "snd (reset demo_engine ?s2)"
  have r1: "run demo_engine (Some 1) [Reset] ?s0 = ?s1"
    and r2: "run demo_engine (Some 1) [Reset, Play] ?s0 = ?s2"
    and r3: "run demo_engine (Some 1) [Reset, Play, Reset] ?s0 = ?s3"
    by simp_all
  have a1: "fst (reset demo_engine ?s0) = Some TypeError"
    using startup_1_facts(2) by (rule reset_no_threads)
  have m1: "model ?s1 = None"
    using reset_no_threads_keeps [OF startup_1_facts(2), of demo_engine] startup_1_facts(6)
    by simp
  have n1: "thread_count_slider (inputs ?s1) = None" "fps_slider (inputs ?s1) \<noteq> 0"
    using startup_1_facts(2,3) by simp_all
  have p2: "is_running ?s2 \<and> table_disabled ?s2"
    using play_starts [OF reset_stops n1(2)] by simp
  have n2: "thread_count_slider (inputs ?s2) = None"
    using n1(1) by simp
  have a3: "fst (reset demo_engine ?s2) = Some TypeError"
    using n2 by (rule reset_no_threads)
  have t3: "table_disabled ?s3"
    using reset_no_threads_keeps [OF n2, of demo_engine] p2 by simp
  have q3: "\<not> is_running ?s3" by (rule reset_stops)
  show ?thesis
    unfolding r1 r2 r3 using startup_1_facts(1) a1 m1 p2 a3 t3 q3 by simp
qed

subsection \<open>Mass in the quadtree\<close>

lemma fresh_leaf_mass:
  "leaf_mass (fresh_leaf r a q) = (if quadrant_of r a = q then mass a else 0)"
  by (simp add: fresh_leaf_def)

lemma insert_body_mass: "leaf_mass (insert_body d b t) = leaf_mass t + mass b"
proof (induction d b t rule: insert_body.induct)
  case (1 d b r)
  then show ?case by simp
next
  case (2 b r a)
  then show ?case by simp
next
  case (3 d b r a)
  show ?case
  proof (cases "quadrant_of r b")
    case SW
    then show ?thesis using 3(1) by (cases "quadrant_of r a") (simp_all add: fresh_leaf_mass)
  next
    case SE
    then show ?thesis using 3(2) by (cases "quadrant_of r a") (simp_all add: fresh_leaf_mass)
  next
    case NW
    then show ?thesis using 3(3) by (cases "quadrant_of r a") (simp_all add: fresh_leaf_mass)
  next
    case NE
    then show ?thesis using 3(4) by (cases "quadrant_of r a") (simp_all add: fresh_leaf_mass)
  qed
next
  case (4 d b r g t1 t2 t3 t4)
  then show ?case by (cases "quadrant_of r b") simp_all
qed

lemma combine_mass: "mass (combine a b c e) = mass a + mass b + mass c + mass e"
  by (simp add: combine_def Let_def no_body_def)

lemma aggregate_mass: "mass (aggregate_of (aggregate t)) = leaf_mass t"
proof (induction t)
  case (Leaf r c)
  then show ?case by (cases c) (simp_all add: no_body_def)
next
  case (Node r g t1 t2 t3 t4)
  then show ?case by (simp add: Let_def combine_mass)
qed

lemma fold_insert_mass:
  "leaf_mass (fold (\<lambda>p t. insert_body cap (body_of p) t) ps t) = leaf_mass t + total_mass ps"
  by (induction ps arbitrary: t) (simp_all add: insert_body_mass total_mass_def body_of_def)

lemma build_tree_mass: "mass (aggregate_of (build_tree cap b ps)) = total_mass ps"
  by (simp add: build_tree_def aggregate_mass fold_insert_mass)

lemma integrate_m [simp]: "m (integrate h a p) = m p"
  by (simp add: integrate_def Let_def)

lemma update_total_mass: "total_mass (particles (update s)) = total_mass (particles s)"
  by (simp add: update_def Let_def total_mass_def comp_def)

lemma update_last_tree:
  "last_tree (update s) = Some (build_tree (max_depth (native s)) (cfg_bounds s) (particles s))"
  by (simp add: update_def Let_def)

lemma steps_total_mass: "total_mass (particles ((update ^^ n) s)) = total_mass (particles s)"
  by (induction n) (simp_all add: update_total_mass)

subsection \<open>The step and the reset\<close>

lemma update_extents:
  "get_extents (update mdl)
     = regions (build_tree (max_depth (native mdl)) (cfg_bounds mdl) (particles mdl))"
  by (simp add: update_def get_extents_def Let_def)

lemma demo_update_particles: "particles (update demo_model) = [\<lparr>x = 1, y = 1 / 10, vx = 0, vy = 1, m = 1\<rparr>,
                   \<lparr>x = - (1 / 10), y = 2, vx = - 1, vy = 0, m = 3\<rparr>]"
  by (simp add: update_def demo_model_def demo_engine_def integrate_def Let_def)

lemma reset_success:
  assumes "thread_count_slider (inputs st) = Some tc"
    and "MultithreadedParticleSystem e (num_particles_slider (inputs st) * tc)
           (bounds_slider (inputs st)) (seed_input (inputs st)) (theta_slider (inputs st))
           (time_delta_slider (inputs st)) tc = Inr mdl0"
  shows "reset e st =
     (None, st\<lparr>play_button_name := (if is_running st then ''Play'' else play_button_name st),
                periodic_callback := None,
                model := Some (mdl0\<lparr>particles := map orbital (particles mdl0)\<rparr>),
                particle_pipe := particle_pipe st
                  @ [(particle_data (mdl0\<lparr>particles := map orbital (particles mdl0)\<rparr>),
                      [(- bounds_slider (inputs st), - bounds_slider (inputs st),
                        bounds_slider (inputs st), bounds_slider (inputs st))])],
                framewise := False,
                table_value := Some (particle_data (mdl0\<lparr>particles := map orbital (particles mdl0)\<rparr>)),
                table_disabled := False\<rparr>)"
  using assms by (cases "periodic_callback st") (auto simp add: reset_def Let_def send_def is_running_def)

lemma reset_raises:
  assumes "thread_count_slider (inputs st) = Some tc"
    and "MultithreadedParticleSystem e (num_particles_slider (inputs st) * tc)
           (bounds_slider (inputs st)) (seed_input (inputs st)) (theta_slider (inputs st))
           (time_delta_slider (inputs st)) tc = Inl err"
  shows "fst (reset e st) = Some err"
  using assms by (auto simp add: reset_def Let_def)

lemma reset_cases:
  assumes "fst (reset e st) = None"
  obtains tc mdl0 where "thread_count_slider (inputs st) = Some tc"
    and "MultithreadedParticleSystem e (num_particles_slider (inputs st) * tc)
           (bounds_slider (inputs st)) (seed_input (inputs st)) (theta_slider (inputs st))
           (time_delta_slider (inputs st)) tc = Inr mdl0"
proof (cases "thread_count_slider (inputs st)")
  case None
  then show ?thesis using assms reset_no_threads [of st e] by simp
next
  case (Some tc)
  show ?thesis
  proof (cases "MultithreadedParticleSystem e (num_particles_slider (inputs st) * tc)
           (bounds_slider (inputs st)) (seed_input (inputs st)) (theta_slider (inputs st))
           (time_delta_slider (inputs st)) tc")
    case (Inl err)
    then show ?thesis using assms reset_raises [OF Some Inl] by simp
  next
    case (Inr mdl0)
    then show ?thesis using that Some by blast
  qed
qed

lemma construct_fields:
  assumes "MultithreadedParticleSystem e n b s th d tc = Inr mdl0"
  shows "particles mdl0 = map (spawn e s) [0..<nat n]" "cfg_bounds mdl0 = b" "cfg_seed mdl0 = s"
    "cfg_theta mdl0 = th" "cfg_dt mdl0 = d" "cfg_thread_count mdl0 = tc" "last_tree mdl0 = None"
    "0 < n"
  using assms by (auto simp: MultithreadedParticleSystem_def split: if_splits)

subsection \<open>Further claims\<close>

text \<open>
  C2. For an edit of column x, y or m at a row of the table, \<open>edit_model\<close> assigns the new
  content to exactly that attribute of the particle at that index: the other attributes of the
  particle, the other particles and the rest of the model stay as they were, and the edited
  attribute reads back as the new content.
\<close>

theorem edit_model_assigns_exactly:
  assumes "model st = Some mdl" and "row ev < length (particles mdl)"
    and "column ev \<in> {''x'', ''y'', ''m''}"
  shows "\<exists>mdl'. edit_model ev st
             = (None, send (particle_data mdl', extent_data mdl') (st\<lparr>model := Some mdl'\<rparr>))
         \<and> mdl' = mdl\<lparr>particles := particles mdl'\<rparr>
         \<and> length (particles mdl') = length (particles mdl)
         \<and> (\<forall>j. j \<noteq> row ev \<longrightarrow> particles mdl' ! j = particles mdl ! j)
         \<and> (column ev = ''x'' \<longrightarrow>
               particles mdl' ! row ev = (particles mdl ! row ev)\<lparr>x := edited ev\<rparr>
               \<and> x (particles mdl' ! row ev) = edited ev)
         \<and> (column ev = ''y'' \<longrightarrow>
               particles mdl' ! row ev = (particles mdl ! row ev)\<lparr>y := edited ev\<rparr>
               \<and> y (particles mdl' ! row ev) = edited ev)
         \<and> (column ev = ''m'' \<longrightarrow>
               particles mdl' ! row ev = (particles mdl ! row ev)\<lparr>m := edited ev\<rparr>
               \<and> m (particles mdl' ! row ev) = edited ev)"
proof -
  consider "column ev = ''x''" | "column ev = ''y''" | "column ev = ''m''"
    using assms(3) by auto
  then show ?thesis
  proof cases
    case 1
    then show ?thesis using assms(1,2)
      by (intro exI [of _ "mdl\<lparr>particles := (particles mdl)[row ev := (particles mdl ! row ev)\<lparr>x := edited ev\<rparr>]\<rparr>"])
        (simp add: edit_model_def assign_at_def)
  next
    case 2
    then show ?thesis using assms(1,2)
      by (intro exI [of _ "mdl\<lparr>particles := (particles mdl)[row ev := (particles mdl ! row ev)\<lparr>y := edited ev\<rparr>]\<rparr>"])
        (simp add: edit_model_def assign_at_def)
  next
    case 3
    then show ?thesis using assms(1,2)
      by (intro exI [of _ "mdl\<lparr>particles := (particles mdl)[row ev := (particles mdl ! row ev)\<lparr>m := edited ev\<rparr>]\<rparr>"])
        (simp add: edit_model_def assign_at_def)
  qed
qed

theorem edit_model_assigns_exactly_witness:
  "model demo_dash = Some demo_model \<and> row \<lparr>column = ''m'', row = 0, edited = 5\<rparr> < length (particles demo_model)
   \<and> fst (edit_model \<lparr>column = ''m'', row = 0, edited = 5\<rparr> demo_dash) = None
   \<and> map_option particles (model (snd (edit_model \<lparr>column = ''m'', row = 0, edited = 5\<rparr> demo_dash)))
       = Some [\<lparr>x = 1, y = 0, vx = 0, vy = 1, m = 5\<rparr>, \<lparr>x = 0, y = 2, vx = - 1, vy = 0, m = 3\<rparr>]"
  using edit_model_assigns_exactly [of demo_dash demo_model "\<lparr>column = ''m'', row = 0, edited = 5\<rparr>"]
  by (simp add: demo_dash_def demo_model_def edit_model_def assign_at_def send_def)

text \<open>
  C3. Every invocation of \<open>update_model\<close> on a dashboard with a model advances the model by
  exactly one step first, then sends through the pipe the rows \<open>(x, y, m)\<close> of the particles
  in index order together with the rectangles of the tree of that step, and writes the same
  rows to the table; nothing else of the state changes and no result of the step is used.
\<close>

theorem update_model_steps_once_then_streams:
  assumes "model st = Some mdl0"
  shows "update_model st
           = (None, st\<lparr>model := Some (update mdl0),
                       particle_pipe := particle_pipe st
                          @ [(map (\<lambda>p. (x p, y p, m p)) (particles (update mdl0)),
                              get_extents (update mdl0))],
                       table_value := Some (map (\<lambda>p. (x p, y p, m p)) (particles (update mdl0)))\<rparr>)
         \<and> get_extents (update mdl0)
             = regions (build_tree (max_depth (native mdl0)) (cfg_bounds mdl0) (particles mdl0))
         \<and> length (particles (update mdl0)) = length (particles mdl0)"
  using assms
  by (simp add: update_model_def Let_def send_def particle_data_def extent_data_def
      update_extents) (simp add: update_def Let_def)

theorem update_model_steps_once_then_streams_witness:
  "model demo_dash = Some demo_model
   \<and> fst (update_model demo_dash) = None
   \<and> map_option particles (model (snd (update_model demo_dash)))
       = Some [\<lparr>x = 1, y = 1 / 10, vx = 0, vy = 1, m = 1\<rparr>,
               \<lparr>x = - (1 / 10), y = 2, vx = - 1, vy = 0, m = 3\<rparr>]
   \<and> table_value (snd (update_model demo_dash)) = Some [(1, 1 / 10, 1), (- (1 / 10), 2, 3)]
   \<and> map_option fst (Some (last (particle_pipe (snd (update_model demo_dash)))))
       = Some [(1, 1 / 10, 1), (- (1 / 10), 2, 3)]"
proof -
  have h: "model demo_dash = Some demo_model" by (simp add: demo_dash_def)
  show ?thesis
    using h update_model_steps_once_then_streams [OF h]
    by (simp add: demo_update_particles)
qed

text \<open>
  C4. Every constructor call of \<open>reset\<close> passes, in this order, the particle count, the bounds
  slider, the seed input, the theta slider, the time delta slider and the thread count slider:
  the model it installs has each of them as the matching part of its configuration, and when
  the constructor raises, the old model stays.
\<close>

theorem reset_passes_widgets_in_order:
  assumes "thread_count_slider (inputs st) = Some tc"
  shows "case MultithreadedParticleSystem e (num_particles_slider (inputs st) * tc)
                (bounds_slider (inputs st)) (seed_input (inputs st)) (theta_slider (inputs st))
                (time_delta_slider (inputs st)) tc of
           Inl err \<Rightarrow> fst (reset e st) = Some err \<and> model (snd (reset e st)) = model st
         | Inr mdl0 \<Rightarrow>
             fst (reset e st) = None
             \<and> (\<exists>mdl. model (snd (reset e st)) = Some mdl
                   \<and> particles mdl = map orbital (particles mdl0)
                   \<and> int (length (particles mdl)) = num_particles_slider (inputs st) * tc
                   \<and> cfg_bounds mdl = bounds_slider (inputs st)
                   \<and> cfg_seed mdl = seed_input (inputs st)
                   \<and> cfg_theta mdl = theta_slider (inputs st)
                   \<and> cfg_dt mdl = time_delta_slider (inputs st)
                   \<and> cfg_thread_count mdl = tc)"
proof (cases "MultithreadedParticleSystem e (num_particles_slider (inputs st) * tc)
                (bounds_slider (inputs st)) (seed_input (inputs st)) (theta_slider (inputs st))
                (time_delta_slider (inputs st)) tc")
  case (Inl err)
  then show ?thesis using assms by (cases "periodic_callback st") (auto simp: reset_def Let_def)
next
  case (Inr mdl0)
  then show ?thesis
    using reset_success [OF assms Inr] construct_fields [OF Inr] by simp
qed

theorem reset_passes_widgets_in_order_witness:
  "thread_count_slider (inputs demo_dash) = Some 2
   \<and> fst (reset demo_engine demo_dash) = None
   \<and> map_option configuration (model (snd (reset demo_engine demo_dash)))
       = Some (4, 100, 1337, 1 / 2, 1 / 10, 2)"
proof -
  have h: "thread_count_slider (inputs demo_dash) = Some 2"
    by (simp add: demo_dash_def demo_inputs_def)
  show ?thesis
    using h reset_passes_widgets_in_order [OF h, of demo_engine]
    by (auto simp add: demo_dash_def demo_inputs_def MultithreadedParticleSystem_def
        configuration_def)
qed

text \<open>
  C8. After every step, the aggregate mass stored at the root of the tree of that step equals
  the sum of the masses of the particles, both of the particles the tree was built from and of
  the particles as the step leaves them (which the next rebuild starts from); the sum never
  changes from step to step.
\<close>

theorem root_mass_is_total_mass:
  "\<exists>t. last_tree ((update ^^ Suc n) s) = Some t
       \<and> mass (aggregate_of t) = total_mass (particles ((update ^^ n) s))
       \<and> mass (aggregate_of t) = total_mass (particles ((update ^^ Suc n) s))
       \<and> mass (aggregate_of t) = total_mass (particles s)"
  by (simp add: update_last_tree build_tree_mass update_total_mass steps_total_mass)

theorem root_mass_is_total_mass_witness:
  "mass (aggregate_of (the (last_tree (update demo_model)))) = 4
   \<and> total_mass (particles demo_model) = 4"
  using root_mass_is_total_mass [of 0 demo_model]
  by (auto simp add: demo_model_def total_mass_def)

subsection \<open>The velocities set by the reset\<close>

lemma hypot_sq: "(hypot a b)\<^sup>2 = a\<^sup>2 + b\<^sup>2"
  by (simp add: hypot_def)

lemma orbital_far:
  assumes "hypot (x p) (y p) > 1 / 10 ^ 8"
  shows "vx (orbital p) = - y p / hypot (x p) (y p)"
    and "vy (orbital p) = x p / hypot (x p) (y p)"
    and "x p * vx (orbital p) + y p * vy (orbital p) = 0"
    and "(vx (orbital p))\<^sup>2 + (vy (orbital p))\<^sup>2 = 1"
proof -
  let ?r = "hypot (x p) (y p)"
  have pos: "0 < ?r" using assms by (rule less_trans [rotated]) simp
  show a: "vx (orbital p) = - y p / ?r" and b: "vy (orbital p) = x p / ?r"
    using assms by (simp_all add: orbital_def Let_def)
  show "x p * vx (orbital p) + y p * vy (orbital p) = 0"
    using pos by (simp add: a b)
  have "(vx (orbital p))\<^sup>2 + (vy (orbital p))\<^sup>2 = ((x p)\<^sup>2 + (y p)\<^sup>2) / ?r\<^sup>2"
    by (simp add: a b power_divide add_divide_distrib)
  also have "\<dots> = ?r\<^sup>2 / ?r\<^sup>2" by (simp only: hypot_sq)
  also have "\<dots> = 1" using pos by simp
  finally show "(vx (orbital p))\<^sup>2 + (vy (orbital p))\<^sup>2 = 1" .
qed

lemma orbital_near:
  "hypot (x p) (y p) \<le> 1 / 10 ^ 8 \<Longrightarrow> orbital p = p"
  by (simp add: orbital_def Let_def)

lemma orbital_keeps [simp]:
  "x (orbital p) = x p" "y (orbital p) = y p" "m (orbital p) = m p"
  by (simp_all add: orbital_def Let_def)

lemma spawn_still [simp]: "vx (spawn e s i) = 0" "vy (spawn e s i) = 0"
  by (simp_all add: spawn_def split: prod.splits)

lemma hypot_axis: "hypot a 0 = \<bar>a\<bar>"
  by (simp add: hypot_def)

lemma demo_reset_returns: "fst (reset demo_engine demo_dash) = None"
  by (simp add: reset_def Let_def demo_dash_def demo_inputs_def MultithreadedParticleSystem_def
      send_def)

lemma demo_reset_particles:
  "map_option particles (model (snd (reset demo_engine demo_dash)))
     = Some [\<lparr>x = 0, y = 0, vx = 0, vy = 0, m = 1\<rparr>, \<lparr>x = 1, y = 0, vx = 0, vy = 1, m = 1\<rparr>,
             \<lparr>x = 2, y = 0, vx = 0, vy = 1, m = 1\<rparr>, \<lparr>x = 3, y = 0, vx = 0, vy = 1, m = 1\<rparr>]"
  by (simp add: reset_def Let_def demo_dash_def demo_inputs_def MultithreadedParticleSystem_def
      send_def demo_engine_def spawn_def orbital_def hypot_axis upt_rec)

subsection \<open>Input widgets and configuration along a run\<close>

lemma handle_in_range:
  "in_range cpu (inputs st) \<Longrightarrow> enabled cpu st ev \<Longrightarrow> in_range cpu (inputs (snd (handle e ev st)))"
  by (cases ev) simp_all

lemma run_in_range:
  "in_range cpu (inputs st) \<Longrightarrow> in_range cpu (inputs (run e cpu evs st))"
  by (induction evs arbitrary: st) (simp_all add: handle_in_range)

lemma update_configuration: "configuration (update mdl) = configuration mdl"
  by (simp add: configuration_def update_def Let_def)

lemma assign_at_configuration:
  "assign_at i f mdl = Inr mdl' \<Longrightarrow> configuration mdl' = configuration mdl"
  by (auto simp: assign_at_def configuration_def split: if_splits)

lemma play_model: "model (snd (play st)) = model st"
  by (simp add: play_def Let_def send_def split: option.splits)

lemma update_model_configuration:
  "map_option configuration (model (snd (update_model st))) = map_option configuration (model st)"
  by (simp add: update_model_def Let_def send_def update_configuration split: option.splits)

lemma edit_model_configuration:
  "map_option configuration (model (snd (edit_model ev st))) = map_option configuration (model st)"
  by (auto simp add: edit_model_def send_def assign_at_configuration
      split: option.splits sum.splits if_splits)

lemma handle_configuration:
  "ev \<noteq> Reset \<Longrightarrow>
     map_option configuration (model (snd (handle e ev st))) = map_option configuration (model st)"
  by (cases ev) (simp_all add: play_model update_model_configuration edit_model_configuration)

lemma run_configuration:
  "Reset \<notin> set evs \<Longrightarrow>
     map_option configuration (model (run e cpu evs st)) = map_option configuration (model st)"
  by (induction evs arbitrary: st) (auto simp add: handle_configuration)

lemma play_ignores_inputs: "model (snd (play (st\<lparr>inputs := w\<rparr>))) = model (snd (play st))"
  by (simp add: play_model)

lemma update_model_ignores_inputs:
  "model (snd (update_model (st\<lparr>inputs := w\<rparr>))) = model (snd (update_model st))"
  by (simp add: update_model_def Let_def send_def split: option.splits)

lemma edit_model_ignores_inputs:
  "model (snd (edit_model ev (st\<lparr>inputs := w\<rparr>))) = model (snd (edit_model ev st))"
  by (simp add: edit_model_def Let_def send_def split: option.splits sum.splits)

lemma visualize_model_ignores_model:
  "visualize_model (st\<lparr>model := mm\<rparr>) d = visualize_model st d"
  by (cases d) (simp_all add: visualize_model_def)

subsection \<open>Claims about the reset and the configuration\<close>

text \<open>
  C5. After a reset that returns, every particle of the new model has the position and mass it
  was constructed with; a particle whose distance \<open>r = hypot(x, y)\<close> from the origin
  exceeds \<open>1e-8\<close> has the velocity \<open>(- y / r, x / r)\<close>, which is perpendicular to its position
  and of magnitude 1, and a particle with \<open>r \<le> 1e-8\<close> keeps the zero velocity of its
  construction.
\<close>

theorem reset_sets_orbital_velocity:
  assumes "fst (reset e st) = None"
  shows "\<exists>mdl. model (snd (reset e st)) = Some mdl
           \<and> (\<forall>i < length (particles mdl).
                 let q = spawn e (seed_input (inputs st)) i;
                     p = particles mdl ! i;
                     r = hypot (x p) (y p)
                 in x p = x q \<and> y p = y q \<and> m p = m q \<and> vx q = 0 \<and> vy q = 0
                    \<and> (r > 1 / 10 ^ 8 \<longrightarrow>
                          vx p = - y p / r \<and> vy p = x p / r
                          \<and> x p * vx p + y p * vy p = 0 \<and> (vx p)\<^sup>2 + (vy p)\<^sup>2 = 1)
                    \<and> (r \<le> 1 / 10 ^ 8 \<longrightarrow> vx p = 0 \<and> vy p = 0))"
proof -
  obtain tc mdl0 where tc: "thread_count_slider (inputs st) = Some tc"
    and c: "MultithreadedParticleSystem e (num_particles_slider (inputs st) * tc)
           (bounds_slider (inputs st)) (seed_input (inputs st)) (theta_slider (inputs st))
           (time_delta_slider (inputs st)) tc = Inr mdl0"
    using assms by (rule reset_cases)
  let ?n = "nat (num_particles_slider (inputs st) * tc)"
  let ?mdl = "mdl0\<lparr>particles := map orbital (particles mdl0)\<rparr>"
  have ps: "map orbital (particles mdl0)
              = map (\<lambda>i. orbital (spawn e (seed_input (inputs st)) i)) [0..<?n]"
    using construct_fields(1) [OF c] by simp
  have "model (snd (reset e st)) = Some ?mdl"
    using reset_success [OF tc c] by simp
  moreover have "\<forall>i < length (particles ?mdl).
                 let q = spawn e (seed_input (inputs st)) i;
                     p = particles ?mdl ! i;
                     r = hypot (x p) (y p)
                 in x p = x q \<and> y p = y q \<and> m p = m q \<and> vx q = 0 \<and> vy q = 0
                    \<and> (r > 1 / 10 ^ 8 \<longrightarrow>
                          vx p = - y p / r \<and> vy p = x p / r
                          \<and> x p * vx p + y p * vy p = 0 \<and> (vx p)\<^sup>2 + (vy p)\<^sup>2 = 1)
                    \<and> (r \<le> 1 / 10 ^ 8 \<longrightarrow> vx p = 0 \<and> vy p = 0)"
  proof (intro allI impI)
    fix i assume "i < length (particles ?mdl)"
    then have i: "i < ?n" using ps by simp
    let ?q = "spawn e (seed_input (inputs st)) i"
    have p: "particles ?mdl ! i = orbital ?q" using i by (simp add: ps)
    show "let q = spawn e (seed_input (inputs st)) i;
                     p = particles ?mdl ! i;
                     r = hypot (x p) (y p)
                 in x p = x q \<and> y p = y q \<and> m p = m q \<and> vx q = 0 \<and> vy q = 0
                    \<and> (r > 1 / 10 ^ 8 \<longrightarrow>
                          vx p = - y p / r \<and> vy p = x p / r
                          \<and> x p * vx p + y p * vy p = 0 \<and> (vx p)\<^sup>2 + (vy p)\<^sup>2 = 1)
                    \<and> (r \<le> 1 / 10 ^ 8 \<longrightarrow> vx p = 0 \<and> vy p = 0)"
      unfolding Let_def p
      using orbital_far [of ?q] orbital_near [of ?q] by simp
  qed
  ultimately show ?thesis by blast
qed

theorem reset_sets_orbital_velocity_witness:
  "fst (reset demo_engine demo_dash) = None
   \<and> map_option particles (model (snd (reset demo_engine demo_dash)))
     = Some [\<lparr>x = 0, y = 0, vx = 0, vy = 0, m = 1\<rparr>, \<lparr>x = 1, y = 0, vx = 0, vy = 1, m = 1\<rparr>,
             \<lparr>x = 2, y = 0, vx = 0, vy = 1, m = 1\<rparr>, \<lparr>x = 3, y = 0, vx = 0, vy = 1, m = 1\<rparr>]
   \<and> (\<exists>mdl. model (snd (reset demo_engine demo_dash)) = Some mdl
           \<and> (\<forall>i < length (particles mdl).
                 let q = spawn demo_engine (seed_input (inputs demo_dash)) i;
                     p = particles mdl ! i;
                     r = hypot (x p) (y p)
                 in x p = x q \<and> y p = y q \<and> m p = m q \<and> vx q = 0 \<and> vy q = 0
                    \<and> (r > 1 / 10 ^ 8 \<longrightarrow>
                          vx p = - y p / r \<and> vy p = x p / r
                          \<and> x p * vx p + y p * vy p = 0 \<and> (vx p)\<^sup>2 + (vy p)\<^sup>2 = 1)
                    \<and> (r \<le> 1 / 10 ^ 8 \<longrightarrow> vx p = 0 \<and> vy p = 0)))"
  using reset_sets_orbital_velocity [OF demo_reset_returns] demo_reset_returns
    demo_reset_particles by simp

text \<open>
  C6. The model a reset installs has taken no step, so its extent accessor yields no
  rectangle; the frame the reset sends through the pipe carries exactly one rectangle, the root
  square \<open>(- bounds, - bounds, bounds, bounds)\<close> of the bounds slider, which is also the bounds
  the model was constructed with.
\<close>

theorem reset_streams_root_square:
  assumes "fst (reset e st) = None"
  shows "\<exists>mdl. model (snd (reset e st)) = Some mdl
           \<and> get_extents mdl = []
           \<and> cfg_bounds mdl = bounds_slider (inputs st)
           \<and> particle_pipe (snd (reset e st))
               = particle_pipe st
                 @ [(particle_data mdl,
                     [(- bounds_slider (inputs st), - bounds_slider (inputs st),
                       bounds_slider (inputs st), bounds_slider (inputs st))])]"
proof -
  obtain tc mdl0 where tc: "thread_count_slider (inputs st) = Some tc"
    and c: "MultithreadedParticleSystem e (num_particles_slider (inputs st) * tc)
           (bounds_slider (inputs st)) (seed_input (inputs st)) (theta_slider (inputs st))
           (time_delta_slider (inputs st)) tc = Inr mdl0"
    using assms by (rule reset_cases)
  show ?thesis
    using reset_success [OF tc c] construct_fields [OF c] by (simp add: get_extents_def)
qed

theorem reset_streams_root_square_witness:
  "fst (reset demo_engine demo_dash) = None
   \<and> map_option get_extents (model (snd (reset demo_engine demo_dash))) = Some []
   \<and> particle_pipe (snd (reset demo_engine demo_dash))
       = [([(0, 0, 1), (1, 0, 1), (2, 0, 1), (3, 0, 1)], [(- 100, - 100, 100, 100)])]"
  using reset_streams_root_square [OF demo_reset_returns] demo_reset_returns
    demo_reset_particles
  by (auto simp add: particle_data_def demo_dash_def demo_inputs_def)

text \<open>
  C7. Along any run of events without a reset (play, stop, periodic updates, table edits,
  changes of the input widgets) the configuration of the model stays what it was; a change of
  the input widgets leaves the model untouched; the model \<open>play\<close>, \<open>update_model\<close> and
  \<open>edit_model\<close> leave behind does not depend on the input widgets, and the overlay of
  \<open>visualize_model\<close> does not depend on the model; a reset that returns installs a model with
  the configuration the input widgets show.
\<close>

theorem configuration_changes_only_by_reset:
  "(Reset \<notin> set evs \<longrightarrow>
      map_option configuration (model (run e cpu evs st)) = map_option configuration (model st))
   \<and> model (snd (handle e (Configure w) st)) = model st
   \<and> model (snd (play (st\<lparr>inputs := w\<rparr>))) = model (snd (play st))
   \<and> model (snd (update_model (st\<lparr>inputs := w\<rparr>))) = model (snd (update_model st))
   \<and> model (snd (edit_model ev (st\<lparr>inputs := w\<rparr>))) = model (snd (edit_model ev st))
   \<and> visualize_model (st\<lparr>model := mm\<rparr>) d = visualize_model st d
   \<and> (\<forall>tc. thread_count_slider (inputs st) = Some tc \<and> fst (reset e st) = None \<longrightarrow>
         map_option configuration (model (snd (reset e st)))
           = Some (nat (num_particles_slider (inputs st) * tc), bounds_slider (inputs st),
                   seed_input (inputs st), theta_slider (inputs st),
                   time_delta_slider (inputs st), tc))"
proof -
  have "map_option configuration (model (snd (reset e st)))
           = Some (nat (num_particles_slider (inputs st) * tc), bounds_slider (inputs st),
                   seed_input (inputs st), theta_slider (inputs st),
                   time_delta_slider (inputs st), tc)"
    if tc: "thread_count_slider (inputs st) = Some tc" and ok: "fst (reset e st) = None" for tc
  proof -
    obtain tc' mdl0 where tc': "thread_count_slider (inputs st) = Some tc'"
      and c: "MultithreadedParticleSystem e (num_particles_slider (inputs st) * tc')
           (bounds_slider (inputs st)) (seed_input (inputs st)) (theta_slider (inputs st))
           (time_delta_slider (inputs st)) tc' = Inr mdl0"
      using ok by (rule reset_cases)
    have "tc' = tc" using tc tc' by simp
    then show ?thesis
      using reset_success [OF tc' c] construct_fields [OF c] by (simp add: configuration_def)
  qed
  then show ?thesis
    by (simp add: run_configuration play_ignores_inputs update_model_ignores_inputs
        edit_model_ignores_inputs visualize_model_ignores_model)
qed

theorem configuration_changes_only_by_reset_witness:
  "Reset \<notin> set [Play, Tick, Edit \<lparr>column = ''m'', row = 1, edited = 7\<rparr>, Configure demo_inputs]
   \<and> map_option configuration (model (run demo_engine (Some 4)
         [Play, Tick, Edit \<lparr>column = ''m'', row = 1, edited = 7\<rparr>, Configure demo_inputs] demo_dash))
       = Some (2, 100, 1337, 1 / 2, 1 / 10, 1)
   \<and> map_option configuration (model (snd (reset demo_engine demo_dash)))
       = Some (4, 100, 1337, 1 / 2, 1 / 10, 2)"
proof -
  let ?evs = "[Play, Tick, Edit \<lparr>column = ''m'', row = 1, edited = 7\<rparr>, Configure demo_inputs]"
  note t = configuration_changes_only_by_reset [of ?evs demo_engine "Some 4" demo_dash]
  have a: "Reset \<notin> set ?evs" by simp
  have h: "thread_count_slider (inputs demo_dash) = Some 2"
    by (simp add: demo_dash_def demo_inputs_def)
  have "map_option configuration (model (run demo_engine (Some 4) ?evs demo_dash))
          = map_option configuration (model demo_dash)"
    using t a by blast
  moreover have "map_option configuration (model demo_dash) = Some (2, 100, 1337, 1 / 2, 1 / 10, 1)"
    by (simp add: demo_dash_def demo_model_def configuration_def)
  moreover have "map_option configuration (model (snd (reset demo_engine demo_dash)))
       = Some (nat (num_particles_slider (inputs demo_dash) * 2), bounds_slider (inputs demo_dash),
                   seed_input (inputs demo_dash), theta_slider (inputs demo_dash),
                   time_delta_slider (inputs demo_dash), 2)"
    using t h demo_reset_returns by blast
  ultimately show ?thesis using a by (simp add: demo_dash_def demo_inputs_def)
qed

text \<open>
  C9. The particle count a reset passes to the constructor is the value of the slider
  "Particles per Thread" times the selected thread count, hence a multiple of the thread count
  whose quotient by it is the slider value; the model installed has that many particles.
\<close>

theorem reset_particle_count_is_multiple:
  assumes "thread_count_slider (inputs st) = Some tc"
  shows "tc dvd num_particles_slider (inputs st) * tc
         \<and> (tc \<noteq> 0 \<longrightarrow> num_particles_slider (inputs st) * tc div tc = num_particles_slider (inputs st))
         \<and> (case MultithreadedParticleSystem e (num_particles_slider (inputs st) * tc)
                (bounds_slider (inputs st)) (seed_input (inputs st)) (theta_slider (inputs st))
                (time_delta_slider (inputs st)) tc of
               Inl err \<Rightarrow> fst (reset e st) = Some err
             | Inr mdl0 \<Rightarrow>
                 fst (reset e st) = None
                 \<and> map_option (\<lambda>mdl. int (length (particles mdl))) (model (snd (reset e st)))
                     = Some (num_particles_slider (inputs st) * tc))"
proof (cases "MultithreadedParticleSystem e (num_particles_slider (inputs st) * tc)
                (bounds_slider (inputs st)) (seed_input (inputs st)) (theta_slider (inputs st))
                (time_delta_slider (inputs st)) tc")
  case (Inl err)
  then show ?thesis using reset_raises [OF assms Inl] by simp
next
  case (Inr mdl0)
  then show ?thesis
    using reset_success [OF assms Inr] construct_fields [OF Inr] by simp
qed

theorem reset_particle_count_is_multiple_witness:
  "thread_count_slider (inputs demo_dash) = Some 2
   \<and> num_particles_slider (inputs demo_dash) = 2
   \<and> fst (reset demo_engine demo_dash) = None
   \<and> map_option (\<lambda>mdl. int (length (particles mdl))) (model (snd (reset demo_engine demo_dash)))
       = Some 4"
proof -
  have h: "thread_count_slider (inputs demo_dash) = Some 2"
    by (simp add: demo_dash_def demo_inputs_def)
  show ?thesis
    using h reset_particle_count_is_multiple [OF h, of demo_engine]
    by (auto simp add: demo_dash_def demo_inputs_def MultithreadedParticleSystem_def)
qed

text \<open>
  C10. In every state a run of events reaches from the start of the dashboard, a reset that
  gets to the constructor call passes a particle count of at least 1, bounds of at least 25,
  a theta of at least 0, a time delta of at least 0.1 and a thread count of at least 1; the
  constructor does not raise \<open>InvalidConfiguration\<close>, the reset returns, and the model it
  installs has exactly these values as its configuration, so its particle count, bounds,
  theta, time delta and thread count satisfy the same bounds.
\<close>

theorem reset_constructor_call_is_valid:
  assumes "startup cpu = Inr s0" and "st = run e cpu evs s0"
    and "thread_count_slider (inputs st) = Some tc"
  shows "1 \<le> num_particles_slider (inputs st) * tc
         \<and> 25 \<le> bounds_slider (inputs st) \<and> 0 < bounds_slider (inputs st)
         \<and> 0 \<le> theta_slider (inputs st)
         \<and> 1 / 10 \<le> time_delta_slider (inputs st) \<and> 0 < time_delta_slider (inputs st)
         \<and> 1 \<le> tc
         \<and> MultithreadedParticleSystem e (num_particles_slider (inputs st) * tc)
                (bounds_slider (inputs st)) (seed_input (inputs st)) (theta_slider (inputs st))
                (time_delta_slider (inputs st)) tc \<noteq> Inl InvalidConfiguration
         \<and> fst (reset e st) = None
         \<and> (\<exists>mdl. model (snd (reset e st)) = Some mdl
               \<and> configuration mdl
                   = (nat (num_particles_slider (inputs st) * tc), bounds_slider (inputs st),
                      seed_input (inputs st), theta_slider (inputs st),
                      time_delta_slider (inputs st), tc)
               \<and> 1 \<le> length (particles mdl)
               \<and> 25 \<le> cfg_bounds mdl \<and> 0 < cfg_bounds mdl
               \<and> 0 \<le> cfg_theta mdl
               \<and> 1 / 10 \<le> cfg_dt mdl \<and> 0 < cfg_dt mdl
               \<and> 1 \<le> cfg_thread_count mdl)"
proof -
  have r: "in_range cpu (inputs st)"
    using assms(1,2) by (simp add: startup_in_range run_in_range)
  have tc: "1 \<le> tc" using r assms(3) by (rule in_range_thread)
  have n: "1 \<le> num_particles_slider (inputs st)" and b: "25 \<le> bounds_slider (inputs st)"
    and th: "0 \<le> theta_slider (inputs st)" and d: "1 / 10 \<le> time_delta_slider (inputs st)"
    using r by (simp_all add: in_range_def)
  have nt: "1 \<le> num_particles_slider (inputs st) * tc"
    using n tc by (metis mult_mono mult_1 zero_le_one order_trans)
  have ok: "fst (reset e st) = None" using r assms(3) by (simp add: reset_returns)
  obtain tc' mdl0 where tc': "thread_count_slider (inputs st) = Some tc'"
    and c: "MultithreadedParticleSystem e (num_particles_slider (inputs st) * tc')
           (bounds_slider (inputs st)) (seed_input (inputs st)) (theta_slider (inputs st))
           (time_delta_slider (inputs st)) tc' = Inr mdl0"
    using ok by (rule reset_cases)
  have eq: "tc' = tc" using tc' assms(3) by simp
  let ?mdl = "mdl0\<lparr>particles := map orbital (particles mdl0)\<rparr>"
  have inst: "model (snd (reset e st)) = Some ?mdl"
    using reset_success [OF tc' c] by simp
  have cfg: "configuration ?mdl
               = (nat (num_particles_slider (inputs st) * tc), bounds_slider (inputs st),
                  seed_input (inputs st), theta_slider (inputs st),
                  time_delta_slider (inputs st), tc)"
    using construct_fields [OF c] eq by (simp add: configuration_def)
  have props: "1 \<le> length (particles ?mdl)" "25 \<le> cfg_bounds ?mdl" "0 < cfg_bounds ?mdl"
    "0 \<le> cfg_theta ?mdl" "1 / 10 \<le> cfg_dt ?mdl" "0 < cfg_dt ?mdl"
    "1 \<le> cfg_thread_count ?mdl"
    using cfg nt b th d tc by (simp_all add: configuration_def)
  have first: "1 \<le> num_particles_slider (inputs st) * tc
         \<and> 25 \<le> bounds_slider (inputs st) \<and> 0 < bounds_slider (inputs st)
         \<and> 0 \<le> theta_slider (inputs st)
         \<and> 1 / 10 \<le> time_delta_slider (inputs st) \<and> 0 < time_delta_slider (inputs st)
         \<and> 1 \<le> tc
         \<and> MultithreadedParticleSystem e (num_particles_slider (inputs st) * tc)
                (bounds_slider (inputs st)) (seed_input (inputs st)) (theta_slider (inputs st))
                (time_delta_slider (inputs st)) tc \<noteq> Inl InvalidConfiguration"
    using tc n b th d nt by (simp add: MultithreadedParticleSystem_def)
  show ?thesis
    using first ok inst cfg props by blast
qed

theorem reset_constructor_call_is_valid_witness:
  "startup (Some 4) \<noteq> Inl TypeError
   \<and> thread_count_slider (inputs (run demo_engine (Some 4) [Configure demo_inputs, Play]
          (projr (startup (Some 4))))) = Some 2
   \<and> fst (reset demo_engine (run demo_engine (Some 4) [Configure demo_inputs, Play]
          (projr (startup (Some 4))))) = None
   \<and> map_option configuration
         (model (snd (reset demo_engine (run demo_engine (Some 4) [Configure demo_inputs, Play]
            (projr (startup (Some 4)))))))
       = Some (4, 100, 1337, 1 / 2, 1 / 10, 2)"
proof -
  let ?st = "run demo_engine (Some 4) [Configure demo_inputs, Play] (projr (startup (Some 4)))"
  have a: "startup (Some 4) = Inr (projr (startup (Some 4)))" by (simp add: startup_4)
  have i: "inputs ?st = demo_inputs"
    by (simp add: startup_4 in_range_def demo_inputs_def thread_count_def ilog2_4 upt_rec)
  have b: "thread_count_slider (inputs ?st) = Some 2"
    unfolding i by (simp add: demo_inputs_def)
  have "map_option configuration (model (snd (reset demo_engine ?st)))
          = Some (nat (num_particles_slider (inputs ?st) * 2), bounds_slider (inputs ?st),
                      seed_input (inputs ?st), theta_slider (inputs ?st),
                      time_delta_slider (inputs ?st), 2)"
    using reset_constructor_call_is_valid [OF a refl b] by auto
  then have "map_option configuration (model (snd (reset demo_engine ?st)))
          = Some (4, 100, 1337, 1 / 2, 1 / 10, 2)"
    unfolding i by (simp add: demo_inputs_def)
  moreover have "fst (reset demo_engine ?st) = None" using reset_constructor_call_is_valid [OF a refl b] by blast
  ultimately show ?thesis using b by (simp add: startup_4)
qed

end
